theory Spec2Isabelle
  imports Complex_Main
begin

section \<open>PostPilot: admission control, response cache, generation backend\<close>

text \<open>
  A shallow embedding of \<^verbatim>\<open>server/app/services/ratelimit.py\<close>,
  \<^verbatim>\<open>server/app/services/cache.py\<close> and \<^verbatim>\<open>server/app/services/llm_client.py\<close>.

  Conventions of the embedding.
  \<^item> Python floats are modelled as \<^typ>\<open>real\<close>. \<open>consume\<close>, \<open>get_retry_after\<close> and the
    limiters compute in exact arithmetic; \<open>consume_fl\<close>, \<open>get_retry_after_fl\<close> and the
    cache take the rounding of float arithmetic as the parameter \<open>fl\<close>. Infinities and
    NaN are not modelled.
  \<^item> Every call of \<^verbatim>\<open>time.time()\<close> is an explicit argument (one argument per reading,
    in the order the source reads the clock). Nothing is assumed about two readings:
    the wall clock may step backwards.
  \<^item> Mutated objects are passed in and returned.
  \<^item> A raised exception is \<open>Inl\<close> of the type \<open>error\<close>; \<^verbatim>\<open>try/except\<close> is a case
    distinction on it.
  \<^item> A Python \<^verbatim>\<open>str\<close> is a \<^typ>\<open>string\<close>; the model covers the code points below 256.
\<close>

subsection \<open>Errors and configuration\<close>

datatype error = ZeroDivisionError | OverflowError | KeyError | TypeError | ValueError
  | ConnectionError | ResponseError | ImportError | OperationalError

text \<open>The fields of \<^verbatim>\<open>config.Settings\<close> that the three services read.\<close>

record Settings =
  fireworks_api_key :: "string option"
  use_redis :: bool
  redis_url :: string
  cache_ttl :: int
  rate_limit_requests :: int
  rate_limit_window :: int

text \<open>The defaults of \<^verbatim>\<open>config.Settings\<close>.\<close>

definition default_settings :: Settings where
  "default_settings =
     \<lparr>fireworks_api_key = None, use_redis = False, redis_url = ''redis://localhost:6379'',
      cache_ttl = 86400, rate_limit_requests = 60, rate_limit_window = 300\<rparr>"

subsection \<open>Strings\<close>

text \<open>\<^verbatim>\<open>str.isspace\<close> on the code points below 256.\<close>

definition is_space :: "char \<Rightarrow> bool" where
  "is_space c =
     (let n = (of_char c :: nat)
      in (9 \<le> n \<and> n \<le> 13) \<or> (28 \<le> n \<and> n \<le> 32) \<or> n = 133 \<or> n = 160)"

text \<open>The cased capitals below 256: A to Z, and U+00C0 to U+00DE without the sign U+00D7.\<close>

definition is_upper :: "char \<Rightarrow> bool" where
  "is_upper c =
     (let n = (of_char c :: nat)
      in (65 \<le> n \<and> n \<le> 90) \<or> (192 \<le> n \<and> n \<le> 222 \<and> n \<noteq> 215))"

text \<open>
  The lower-case partner of such a capital is 32 code points above it, which is the
  capital with bit 5 set (bit 5 of every capital is clear).
\<close>

fun lower_char :: "char \<Rightarrow> char" where
  "lower_char (Char b0 b1 b2 b3 b4 b5 b6 b7) =
     (if is_upper (Char b0 b1 b2 b3 b4 b5 b6 b7) then Char b0 b1 b2 b3 b4 True b6 b7
      else Char b0 b1 b2 b3 b4 b5 b6 b7)"

text \<open>\<^verbatim>\<open>s.lower()\<close>\<close>

definition lower :: "string \<Rightarrow> string" where
  "lower s = map lower_char s"

text \<open>\<^verbatim>\<open>s.strip()\<close>\<close>

definition strip :: "string \<Rightarrow> string" where
  "strip s = rev (dropWhile is_space (rev (dropWhile is_space s)))"

text \<open>\<^verbatim>\<open>s.startswith(p)\<close>\<close>

fun startswith :: "string \<Rightarrow> string \<Rightarrow> bool" where
  "startswith s [] = True"
| "startswith [] (p # ps) = False"
| "startswith (c # s) (p # ps) = (c = p \<and> startswith s ps)"

text \<open>\<^verbatim>\<open>needle in hay\<close>\<close>

fun str_in :: "string \<Rightarrow> string \<Rightarrow> bool" where
  "str_in needle [] = startswith [] needle"
| "str_in needle (c # hay) = (startswith (c # hay) needle \<or> str_in needle hay)"

text \<open>
  \<^verbatim>\<open>hay.find(needle, start)\<close> for \<open>start \<ge> 0\<close>: the least index \<open>i \<ge> start\<close> at which
  \<open>needle\<close> begins, or \<open>-1\<close>. \<open>find_at\<close> scans the text left of which \<open>i\<close> characters
  have been dropped.
\<close>

fun find_at :: "string \<Rightarrow> string \<Rightarrow> nat \<Rightarrow> int" where
  "find_at needle [] i = (if startswith [] needle then int i else - 1)"
| "find_at needle (c # hay) i =
     (if startswith (c # hay) needle then int i else find_at needle hay (Suc i))"

definition str_find :: "string \<Rightarrow> string \<Rightarrow> nat \<Rightarrow> int" where
  "str_find hay needle start =
     (if length hay < start then - 1 else find_at needle (drop start hay) start)"

text \<open>\<^verbatim>\<open>s[a:b]\<close> for \<open>0 \<le> a\<close> and \<open>0 \<le> b\<close>\<close>

definition slice :: "string \<Rightarrow> nat \<Rightarrow> nat \<Rightarrow> string" where
  "slice s a b = take (b - a) (drop a s)"

text \<open>\<^verbatim>\<open>len(s.split())\<close>: the number of maximal runs of non-space characters.\<close>

fun count_words :: "bool \<Rightarrow> string \<Rightarrow> nat" where
  "count_words inside [] = 0"
| "count_words inside (c # s) =
     (if is_space c then count_words False s
      else (if inside then 0 else 1) + count_words True s)"

subsection \<open>TokenBucket\<close>

record TokenBucket =
  capacity :: int
  refill_rate :: real
  tokens :: real
  last_refill :: real

text \<open>\<^verbatim>\<open>TokenBucket.__init__(capacity, refill_rate)\<close>; \<open>now\<close> is its clock reading.\<close>

definition TokenBucket_init :: "int \<Rightarrow> real \<Rightarrow> real \<Rightarrow> TokenBucket" where
  "TokenBucket_init cap rate now =
     \<lparr>capacity = cap, refill_rate = rate, tokens = of_int cap, last_refill = now\<rparr>"

text \<open>\<^verbatim>\<open>TokenBucket.consume(tokens)\<close>: the answer and the bucket after the call.\<close>

definition consume :: "TokenBucket \<Rightarrow> real \<Rightarrow> int \<Rightarrow> bool \<times> TokenBucket" where
  "consume b now n =
     (let time_elapsed = now - last_refill b;
          tokens_to_add = time_elapsed * refill_rate b;
          b1 = b\<lparr>tokens := min (of_int (capacity b)) (tokens b + tokens_to_add),
                 last_refill := now\<rparr>
      in if tokens b1 \<ge> of_int n then (True, b1\<lparr>tokens := tokens b1 - of_int n\<rparr>)
         else (False, b1))"

text \<open>
  \<^verbatim>\<open>TokenBucket.get_retry_after()\<close>. Python's division raises for a zero divisor.
\<close>

definition get_retry_after :: "TokenBucket \<Rightarrow> error + real" where
  "get_retry_after b =
     (if tokens b \<ge> 1 then Inr 0
      else let tokens_needed = 1 - tokens b
           in if refill_rate b = 0 then Inl ZeroDivisionError
              else Inr (tokens_needed / refill_rate b))"

subsection \<open>TokenBucket with the float arithmetic written out\<close>

text \<open>
  A float operation is the exact operation followed by the rounding \<open>fl\<close> to a float;
  \<open>fl\<close> is a parameter of the definitions below, and it leaves a float as it is. An
  integer meets a float only after its conversion to a float, which is \<open>fl\<close> again and
  which raises \<^verbatim>\<open>OverflowError\<close> for an integer of magnitude \<open>2^1024 - 2^970\<close> or
  more. No float has such a magnitude, so a number of that magnitude in a field that holds
  a float or an integer is an integer that cannot be converted.
\<close>

definition float_limit :: real where
  "float_limit = 2 ^ 1024 - 2 ^ 970"

definition to_float_overflows :: "real \<Rightarrow> bool" where
  "to_float_overflows x = (float_limit \<le> \<bar>x\<bar>)"

text \<open>
  \<^verbatim>\<open>TokenBucket.consume(tokens)\<close>. The field \<^verbatim>\<open>tokens\<close> holds an integer at first
  (the capacity) and whenever \<^verbatim>\<open>min\<close> returns its first argument, the capacity, which
  it does unless the refilled balance is less; otherwise it holds a float.
  \<^verbatim>\<open>refill_rate\<close> and the clock readings are floats. In
  \<^verbatim>\<open>self.tokens + tokens_to_add\<close> the balance is converted; in
  \<^verbatim>\<open>self.tokens -= tokens\<close> the argument is converted when the balance is a float, and
  the subtraction is that of integers when the balance is the capacity. The bucket after
  a call that raises is not part of the result.
\<close>

definition consume_fl ::
  "(real \<Rightarrow> real) \<Rightarrow> TokenBucket \<Rightarrow> real \<Rightarrow> int \<Rightarrow> error + (bool \<times> TokenBucket)" where
  "consume_fl fl b now n =
     (let time_elapsed = fl (now - last_refill b);
          tokens_to_add = fl (time_elapsed * refill_rate b)
      in if to_float_overflows (tokens b) then Inl OverflowError
         else
           (let total = fl (fl (tokens b) + tokens_to_add);
                b1 = b\<lparr>tokens := (if total < of_int (capacity b) then total
                                  else of_int (capacity b)),
                       last_refill := now\<rparr>
            in if tokens b1 \<ge> of_int n
               then (if total < of_int (capacity b)
                     then (if to_float_overflows (of_int n) then Inl OverflowError
                           else Inr (True, b1\<lparr>tokens := fl (tokens b1 - fl (of_int n))\<rparr>))
                     else Inr (True, b1\<lparr>tokens := tokens b1 - of_int n\<rparr>))
               else Inr (False, b1)))"

text \<open>The balance after the refill step of \<open>consume_fl\<close>.\<close>

definition refilled :: "(real \<Rightarrow> real) \<Rightarrow> TokenBucket \<Rightarrow> real \<Rightarrow> real" where
  "refilled fl b now =
     (let total = fl (fl (tokens b) + fl (fl (now - last_refill b) * refill_rate b))
      in if total < of_int (capacity b) then total else of_int (capacity b))"

text \<open>
  \<^verbatim>\<open>TokenBucket.get_retry_after()\<close>. \<^verbatim>\<open>1 - self.tokens\<close> is a float subtraction for a
  float balance and an integer subtraction for an integer balance, whose result the
  division converts; the division converts before it looks at the divisor.
\<close>

definition get_retry_after_fl :: "(real \<Rightarrow> real) \<Rightarrow> TokenBucket \<Rightarrow> error + real" where
  "get_retry_after_fl fl b =
     (if tokens b \<ge> 1 then Inr 0
      else let tokens_needed = 1 - tokens b
           in if to_float_overflows tokens_needed then Inl OverflowError
              else if refill_rate b = 0 then Inl ZeroDivisionError
              else Inr (fl (fl tokens_needed / refill_rate b)))"

text \<open>
  A rounding function for evaluation. The rounding to the nearest binary64 float sends
  the reals from \<open>1 - 2^-54\<close> to 1 to the float 1; \<open>round_near_one\<close> does so and leaves
  every other real as it is.
\<close>

definition round_near_one :: "real \<Rightarrow> real" where
  "round_near_one x = (if 1 - 1 / 2 ^ 54 \<le> x \<and> x \<le> 1 then 1 else x)"

subsection \<open>RateLimiter (in process)\<close>

record RateLimiter =
  buckets :: "string \<rightharpoonup> TokenBucket"
  cleanup_interval :: real
  last_cleanup :: real

definition RateLimiter_init :: "real \<Rightarrow> RateLimiter" where
  "RateLimiter_init now = \<lparr>buckets = Map.empty, cleanup_interval = 300, last_cleanup = now\<rparr>"

text \<open>\<^verbatim>\<open>_get_bucket_key\<close>: a missing or empty endpoint is falsy.\<close>

definition get_bucket_key :: "string \<Rightarrow> string option \<Rightarrow> string" where
  "get_bucket_key client_id endpoint =
     (case endpoint of
        None \<Rightarrow> client_id
      | Some e \<Rightarrow> if e = [] then client_id else client_id @ '':'' @ e)"

definition cleanup_old_buckets :: "RateLimiter \<Rightarrow> real \<Rightarrow> RateLimiter" where
  "cleanup_old_buckets rl now =
     (if now - last_cleanup rl < cleanup_interval rl then rl
      else let cutoff_time = now - 3600
           in rl\<lparr>buckets :=
                    (\<lambda>key. case buckets rl key of
                              None \<Rightarrow> None
                            | Some bucket \<Rightarrow>
                                if last_refill bucket < cutoff_time then None else Some bucket),
                  last_cleanup := now\<rparr>)"

text \<open>
  \<^verbatim>\<open>RateLimiter.is_allowed(client_id, endpoint, tokens)\<close>. The clock is read by the
  sweep (\<open>t_sweep\<close>), by the constructor of a new bucket (\<open>t_new\<close>, read only when the key
  is new) and by \<open>consume\<close> (\<open>t_use\<close>). The quotient
  \<^verbatim>\<open>settings.rate_limit_requests / settings.rate_limit_window\<close> is Python's true
  division of two integers.
\<close>

definition is_allowed ::
  "Settings \<Rightarrow> RateLimiter \<Rightarrow> string \<Rightarrow> string option \<Rightarrow> int \<Rightarrow> real \<Rightarrow> real \<Rightarrow> real
     \<Rightarrow> error + ((bool \<times> real) \<times> RateLimiter)" where
  "is_allowed s rl client_id endpoint n t_sweep t_new t_use =
     (let rl1 = cleanup_old_buckets rl t_sweep;
          bucket_key = get_bucket_key client_id endpoint;
          created =
            (if buckets rl1 bucket_key = None
             then if rate_limit_window s = 0 then Inl ZeroDivisionError
                  else Inr (rl1\<lparr>buckets := (buckets rl1)(bucket_key \<mapsto>
                         TokenBucket_init (rate_limit_requests s)
                           (of_int (rate_limit_requests s) / of_int (rate_limit_window s))
                           t_new)\<rparr>)
             else Inr rl1)
      in case created of
           Inl e \<Rightarrow> Inl e
         | Inr rl2 \<Rightarrow>
             (case buckets rl2 bucket_key of
                None \<Rightarrow> Inl KeyError
              | Some bucket \<Rightarrow>
                  (let (ok, bucket') = consume bucket t_use n;
                       rl3 = rl2\<lparr>buckets := (buckets rl2)(bucket_key \<mapsto> bucket')\<rparr>
                   in if ok then Inr ((True, 0), rl3)
                      else case get_retry_after bucket' of
                             Inl e \<Rightarrow> Inl e
                           | Inr retry_after \<Rightarrow> Inr ((False, retry_after), rl3))))"

text \<open>
  A run of calls with the same arguments, every clock reading of the run being \<open>now\<close>
  (no time elapses): the answers in order, and the limiter after the run.
\<close>

fun is_allowed_run ::
  "Settings \<Rightarrow> RateLimiter \<Rightarrow> string \<Rightarrow> string option \<Rightarrow> real \<Rightarrow> nat
     \<Rightarrow> error + ((bool \<times> real) list \<times> RateLimiter)" where
  "is_allowed_run s rl client_id endpoint now 0 = Inr ([], rl)"
| "is_allowed_run s rl client_id endpoint now (Suc k) =
     (case is_allowed s rl client_id endpoint 1 now now now of
        Inl e \<Rightarrow> Inl e
      | Inr (r, rl') \<Rightarrow>
          (case is_allowed_run s rl' client_id endpoint now k of
             Inl e \<Rightarrow> Inl e
           | Inr (rs, rl'') \<Rightarrow> Inr (r # rs, rl'')))"

subsection \<open>RedisRateLimiter (shared store)\<close>

text \<open>
  The part of the shared store that the limiter uses: sorted sets, one per key, each a
  list of (member, score) pairs with distinct members, and the remaining time to live of
  a key in seconds. The limiter only ever writes the member \<^verbatim>\<open>str(now)\<close> with the score
  \<^verbatim>\<open>now\<close>; the model identifies that member with the number it prints. A sorted set
  that becomes empty is deleted with its key, as the store does.
\<close>

record redis_store =
  zsets :: "string \<rightharpoonup> (real \<times> real) list"
  ttl :: "string \<rightharpoonup> real"

definition redis_empty :: redis_store where
  "redis_empty = \<lparr>zsets = Map.empty, ttl = Map.empty\<rparr>"

definition redis_del :: "redis_store \<Rightarrow> string \<Rightarrow> redis_store" where
  "redis_del st key = st\<lparr>zsets := (zsets st)(key := None), ttl := (ttl st)(key := None)\<rparr>"

text \<open>\<^verbatim>\<open>ZREMRANGEBYSCORE key lo hi\<close>: the number of members removed, and the store.\<close>

definition zremrangebyscore ::
  "redis_store \<Rightarrow> string \<Rightarrow> real \<Rightarrow> real \<Rightarrow> nat \<times> redis_store" where
  "zremrangebyscore st key lo hi =
     (case zsets st key of
        None \<Rightarrow> (0, st)
      | Some z \<Rightarrow>
          (let keep = filter (\<lambda>(member, score). \<not> (lo \<le> score \<and> score \<le> hi)) z
           in (length z - length keep,
               if keep = [] then redis_del st key
               else st\<lparr>zsets := (zsets st)(key \<mapsto> keep)\<rparr>)))"

text \<open>\<^verbatim>\<open>ZCARD key\<close>\<close>

definition zcard :: "redis_store \<Rightarrow> string \<Rightarrow> nat" where
  "zcard st key = (case zsets st key of None \<Rightarrow> 0 | Some z \<Rightarrow> length z)"

text \<open>
  \<^verbatim>\<open>ZADD key score member\<close>: a member already present only has its score updated;
  the number of members added, and the store.
\<close>

definition zadd :: "redis_store \<Rightarrow> string \<Rightarrow> real \<Rightarrow> real \<Rightarrow> nat \<times> redis_store" where
  "zadd st key member score =
     (let z = (case zsets st key of None \<Rightarrow> [] | Some z \<Rightarrow> z)
      in if member \<in> fst ` set z
         then (0, st\<lparr>zsets := (zsets st)(key \<mapsto>
                 map (\<lambda>(m, sc). if m = member then (m, score) else (m, sc)) z)\<rparr>)
         else (1, st\<lparr>zsets := (zsets st)(key \<mapsto> z @ [(member, score)])\<rparr>))"

text \<open>
  \<^verbatim>\<open>EXPIRE key seconds\<close>: whether the key exists; a time to live that is not positive
  deletes the key at once.
\<close>

definition expire :: "redis_store \<Rightarrow> string \<Rightarrow> real \<Rightarrow> bool \<times> redis_store" where
  "expire st key seconds =
     (case zsets st key of
        None \<Rightarrow> (False, st)
      | Some z \<Rightarrow>
          if seconds \<le> 0 then (True, redis_del st key)
          else (True, st\<lparr>ttl := (ttl st)(key \<mapsto> seconds)\<rparr>))"

text \<open>The pair of lowest score (of lowest member among equal scores).\<close>

fun lowest :: "real \<times> real \<Rightarrow> (real \<times> real) list \<Rightarrow> real \<times> real" where
  "lowest x [] = x"
| "lowest x (y # ys) =
     lowest (if snd y < snd x \<or> (snd y = snd x \<and> fst y < fst x) then y else x) ys"

text \<open>\<^verbatim>\<open>ZRANGE key 0 0 WITHSCORES\<close>\<close>

definition zrange_first :: "redis_store \<Rightarrow> string \<Rightarrow> (real \<times> real) list" where
  "zrange_first st key =
     (case zsets st key of
        None \<Rightarrow> []
      | Some z \<Rightarrow> (case z of [] \<Rightarrow> [] | x # xs \<Rightarrow> [lowest x xs]))"

text \<open>
  What the store does by itself while \<open>dt\<close> seconds pass: a key whose time to live runs
  out is deleted.
\<close>

definition elapse :: "redis_store \<Rightarrow> real \<Rightarrow> redis_store" where
  "elapse st dt =
     \<lparr>zsets = (\<lambda>key. case ttl st key of
                        None \<Rightarrow> zsets st key
                      | Some left \<Rightarrow> if left - dt \<le> 0 then None else zsets st key),
      ttl = (\<lambda>key. case ttl st key of
                      None \<Rightarrow> None
                    | Some left \<Rightarrow> if left - dt \<le> 0 then None else Some (left - dt))\<rparr>"



text \<open>\<^verbatim>\<open>f"rate_limit:{client_id}:{endpoint or 'global'}"\<close>\<close>

definition redis_key :: "string \<Rightarrow> string option \<Rightarrow> string" where
  "redis_key client_id endpoint =
     ''rate_limit:'' @ client_id @ '':'' @
       (case endpoint of None \<Rightarrow> ''global'' | Some e \<Rightarrow> if e = [] then ''global'' else e)"

text \<open>
  The four queued commands of the pipeline, run by \<^verbatim>\<open>pipe.execute()\<close>: the list
  \<^verbatim>\<open>results\<close> (as a tuple) and the store.
\<close>

definition pipeline_execute ::
  "Settings \<Rightarrow> redis_store \<Rightarrow> string \<Rightarrow> real \<Rightarrow> (nat \<times> nat \<times> nat \<times> bool) \<times> redis_store" where
  "pipeline_execute s st key now =
     (let window_start = now - of_int (rate_limit_window s);
          (removed, st1) = zremrangebyscore st key 0 window_start;
          card = zcard st1 key;
          (added, st2) = zadd st1 key now now;
          (live, st3) = expire st2 key (of_int (rate_limit_window s))
      in ((removed, card, added, live), st3))"

text \<open>
  The body of the \<^verbatim>\<open>try\<close> block of \<^verbatim>\<open>RedisRateLimiter.is_allowed\<close>. The store is
  reached twice: by \<^verbatim>\<open>pipe.execute()\<close> and, on the denying path, by \<^verbatim>\<open>zrange\<close>.
  \<open>exec_fault\<close> and \<open>zrange_fault\<close> say whether the round trip raises (\<open>Some e\<close>), in
  which case its commands do not reach the store. The argument \<open>n\<close>
  (\<^verbatim>\<open>tokens\<close>) is not used by the source.
\<close>

definition redis_is_allowed_try ::
  "Settings \<Rightarrow> redis_store \<Rightarrow> string \<Rightarrow> string option \<Rightarrow> int \<Rightarrow> real
     \<Rightarrow> error option \<Rightarrow> error option \<Rightarrow> (error + (bool \<times> real)) \<times> redis_store" where
  "redis_is_allowed_try s st client_id endpoint n now exec_fault zrange_fault =
     (let key = redis_key client_id endpoint
      in case exec_fault of
           Some e \<Rightarrow> (Inl e, st)
         | None \<Rightarrow>
             (let ((removed, current_requests, added, live), st') = pipeline_execute s st key now
              in if int current_requests < rate_limit_requests s then (Inr (True, 0), st')
                 else case zrange_fault of
                        Some e \<Rightarrow> (Inl e, st')
                      | None \<Rightarrow>
                          (case zrange_first st' key of
                             [] \<Rightarrow> (Inr (False, of_int (rate_limit_window s)), st')
                           | (member, score) # rest \<Rightarrow>
                               (let retry_after = score + of_int (rate_limit_window s) - now
                                in (Inr (False, max 0 retry_after), st')))))"

text \<open>\<^verbatim>\<open>RedisRateLimiter.is_allowed\<close>: the \<^verbatim>\<open>except Exception\<close> clause admits.\<close>

definition redis_is_allowed ::
  "Settings \<Rightarrow> redis_store \<Rightarrow> string \<Rightarrow> string option \<Rightarrow> int \<Rightarrow> real
     \<Rightarrow> error option \<Rightarrow> error option \<Rightarrow> (bool \<times> real) \<times> redis_store" where
  "redis_is_allowed s st client_id endpoint n now exec_fault zrange_fault =
     (case redis_is_allowed_try s st client_id endpoint n now exec_fault zrange_fault of
        (Inl e, st') \<Rightarrow> ((True, 0), st')
      | (Inr answer, st') \<Rightarrow> (answer, st'))"

subsection \<open>Choosing the limiter\<close>



subsection \<open>The invariant of a bucket\<close>

definition bucket_inv :: "TokenBucket \<Rightarrow> bool" where
  "bucket_inv b = (0 \<le> tokens b \<and> tokens b \<le> of_int (capacity b))"

subsection \<open>A scenario for the shared-store limiter\<close>

text \<open>
  One request per ten seconds. \<open>store_after_first\<close> is the store after a first request of
  \<^verbatim>\<open>("c1", "summarize")\<close> at the reading 0, made on an empty store.
\<close>

definition one_per_ten :: Settings where
  "one_per_ten = default_settings\<lparr>rate_limit_requests := 1, rate_limit_window := 10\<rparr>"

definition store_after_first :: redis_store where
  "store_after_first =
     snd (redis_is_allowed one_per_ten redis_empty ''c1'' (Some ''summarize'') 1 0 None None)"

subsection \<open>Library functions of the cache\<close>

text \<open>
  JSON values, as far as \<^verbatim>\<open>json.dumps\<close> and \<^verbatim>\<open>json.loads\<close> distinguish them. A
  dictionary is the list of its items.
\<close>

datatype json = JNull | JBool bool | JNum real | JStr string | JArr "json list"
  | JObj "(string \<times> json) list"

text \<open>
  The functions of the Python library that the cache calls are parameters of the model:
  \<open>sha256_hexdigest\<close> is \<^verbatim>\<open>hashlib.sha256(s.encode()).hexdigest()\<close>, \<open>json_dumps\<close> is
  \<^verbatim>\<open>json.dumps\<close> (it raises for a value that cannot be serialised) and \<open>json_loads\<close>
  is \<^verbatim>\<open>json.loads\<close> (it raises for a malformed document). \<open>'t\<close> is the type of the
  serialised documents.
\<close>

record 't pylib =
  sha256_hexdigest :: "string \<Rightarrow> string"
  json_dumps :: "json \<Rightarrow> error + 't"
  json_loads :: "'t \<Rightarrow> error + json"

text \<open>
  An instance for evaluation: a document is identified with the value that it denotes,
  and a string stands for its own digest.
\<close>

definition plain_lib :: "json pylib" where
  "plain_lib = \<lparr>sha256_hexdigest = (\<lambda>s. s), json_dumps = Inr, json_loads = Inr\<rparr>"

text \<open>The hash function does not send the two strings, if they differ, to one digest.\<close>

definition no_collision :: "'t pylib \<Rightarrow> string \<Rightarrow> string \<Rightarrow> bool" where
  "no_collision L x y = (x = y \<or> sha256_hexdigest L x \<noteq> sha256_hexdigest L y)"

subsection \<open>SQLiteCache\<close>

text \<open>
  A row of the table \<^verbatim>\<open>cache\<close>; \<^verbatim>\<open>key\<close> is the primary key, so the table is a map
  from keys to rows and \<^verbatim>\<open>INSERT OR REPLACE\<close> is the update of the map.
\<close>

record 't cache_row =
  row_value :: 't
  created_at :: real
  expires_at :: real

type_synonym 't sqlite_db = "string \<rightharpoonup> 't cache_row"

text \<open>
  \<^verbatim>\<open>SQLiteCache.get(key)\<close>; \<open>now\<close> is the clock reading of the query and \<open>fault\<close> says
  whether the database raises. Python's \<^verbatim>\<open>None\<close> is both the miss and the value of
  the document \<^verbatim>\<open>null\<close>.
\<close>

definition SQLiteCache_get ::
  "'t pylib \<Rightarrow> 't sqlite_db \<Rightarrow> string \<Rightarrow> real \<Rightarrow> error option \<Rightarrow> json option" where
  "SQLiteCache_get L db key now fault =
     (case fault of
        Some e \<Rightarrow> None
      | None \<Rightarrow>
          (case db key of
             None \<Rightarrow> None
           | Some row \<Rightarrow>
               if expires_at row > now
               then (case json_loads L (row_value row) of
                       Inl e \<Rightarrow> None
                     | Inr v \<Rightarrow> if v = JNull then None else Some v)
               else None))"

text \<open>
  \<^verbatim>\<open>SQLiteCache.set(key, value, ttl)\<close>: \<^verbatim>\<open>ttl or settings.cache_ttl\<close> takes the
  default for a missing \<open>ttl\<close> and for the \<open>ttl\<close> 0. \<open>t_exp\<close> is the clock reading for
  \<^verbatim>\<open>expires_at\<close>, \<open>t_created\<close> the later one for \<^verbatim>\<open>created_at\<close>. The sum
  \<^verbatim>\<open>time.time() + ttl\<close> is a float addition (rounding \<open>fl\<close>) after the conversion of
  the integer \<open>ttl\<close> to a float, which raises \<^verbatim>\<open>OverflowError\<close> for a magnitude of
  \<open>2^1024 - 2^970\<close> or more; the sum is inside the \<^verbatim>\<open>try\<close> block, so the method then
  returns \<^verbatim>\<open>False\<close> and writes nothing.
\<close>

definition SQLiteCache_set ::
  "(real \<Rightarrow> real) \<Rightarrow> 't pylib \<Rightarrow> Settings \<Rightarrow> 't sqlite_db \<Rightarrow> string \<Rightarrow> json \<Rightarrow> int option
     \<Rightarrow> real \<Rightarrow> real \<Rightarrow> error option \<Rightarrow> bool \<times> 't sqlite_db" where
  "SQLiteCache_set fl L s db key v ttl_arg t_exp t_created fault =
     (let ttl' = (case ttl_arg of
                    None \<Rightarrow> cache_ttl s
                  | Some t \<Rightarrow> if t = 0 then cache_ttl s else t)
      in if to_float_overflows (of_int ttl') then (False, db)
         else
           (let expires = fl (t_exp + fl (of_int ttl'))
            in case fault of
                 Some e \<Rightarrow> (False, db)
               | None \<Rightarrow>
                   (case json_dumps L v of
                      Inl e \<Rightarrow> (False, db)
                    | Inr doc \<Rightarrow>
                        (True, db(key \<mapsto>
                           \<lparr>row_value = doc, created_at = t_created,
                            expires_at = expires\<rparr>)))))"

text \<open>\<^verbatim>\<open>SQLiteCache.cleanup_expired()\<close>: the number of rows deleted is not modelled.\<close>

definition cleanup_expired :: "'t sqlite_db \<Rightarrow> real \<Rightarrow> 't sqlite_db" where
  "cleanup_expired db now =
     (\<lambda>key. case db key of
               None \<Rightarrow> None
             | Some row \<Rightarrow> if expires_at row \<le> now then None else Some row)"

subsection \<open>CacheManager over the SQLite backend\<close>

text \<open>
  The string that is hashed: \<^verbatim>\<open>f"{normalized_text}:{mode}:{persona}:{cache_version}"\<close>
  with \<^verbatim>\<open>normalized_text = text.strip().lower()\<close>.
\<close>

definition key_material :: "string \<Rightarrow> string \<Rightarrow> string \<Rightarrow> string \<Rightarrow> string" where
  "key_material cache_version txt mode persona =
     (let normalized_text = lower (strip txt)
      in normalized_text @ '':'' @ mode @ '':'' @ persona @ '':'' @ cache_version)"

text \<open>\<^verbatim>\<open>generate_key\<close> with the local constant \<^verbatim>\<open>cache_version\<close> as an argument.\<close>

definition generate_key_version ::
  "'t pylib \<Rightarrow> string \<Rightarrow> string \<Rightarrow> string \<Rightarrow> string \<Rightarrow> string" where
  "generate_key_version L cache_version txt mode persona =
     (let content_hash = sha256_hexdigest L (key_material cache_version txt mode persona)
      in ''postpilot:'' @ content_hash)"

text \<open>\<^verbatim>\<open>CacheManager.generate_key(text, mode, persona)\<close>: the version is \<^verbatim>\<open>"v2"\<close>.\<close>

definition generate_key :: "'t pylib \<Rightarrow> string \<Rightarrow> string \<Rightarrow> string \<Rightarrow> string" where
  "generate_key L txt mode persona = generate_key_version L ''v2'' txt mode persona"

text \<open>\<^verbatim>\<open>CacheManager.get(text, mode, persona)\<close>\<close>

definition CacheManager_get ::
  "'t pylib \<Rightarrow> 't sqlite_db \<Rightarrow> string \<Rightarrow> string \<Rightarrow> string \<Rightarrow> real \<Rightarrow> error option
     \<Rightarrow> json option" where
  "CacheManager_get L db txt mode persona now fault =
     (let key = generate_key L txt mode persona
      in SQLiteCache_get L db key now fault)"

text \<open>The dictionary \<^verbatim>\<open>cache_data\<close> that \<^verbatim>\<open>CacheManager.set\<close> stores.\<close>

definition cache_data :: "'t pylib \<Rightarrow> string \<Rightarrow> string \<Rightarrow> string \<Rightarrow> json \<Rightarrow> real \<Rightarrow> json" where
  "cache_data L txt mode persona result t_cached =
     JObj [(''result'', result), (''cached_at'', JNum t_cached), (''mode'', JStr mode),
           (''persona'', JStr persona),
           (''text_hash'', JStr (take 16 (sha256_hexdigest L txt)))]"

text \<open>
  \<^verbatim>\<open>CacheManager.set(text, mode, persona, result, ttl)\<close>; \<open>t_cached\<close> is the clock
  reading for \<^verbatim>\<open>cached_at\<close>, read before the two readings of the backend.
\<close>

definition CacheManager_set ::
  "(real \<Rightarrow> real) \<Rightarrow> 't pylib \<Rightarrow> Settings \<Rightarrow> 't sqlite_db \<Rightarrow> string \<Rightarrow> string \<Rightarrow> string
     \<Rightarrow> json \<Rightarrow> int option \<Rightarrow> real \<Rightarrow> real \<Rightarrow> real \<Rightarrow> error option
     \<Rightarrow> bool \<times> 't sqlite_db" where
  "CacheManager_set fl L s db txt mode persona result ttl_arg t_cached t_exp t_created fault =
     (let key = generate_key L txt mode persona
      in SQLiteCache_set fl L s db key (cache_data L txt mode persona result t_cached)
           ttl_arg t_exp t_created fault)"

subsection \<open>Generation clients\<close>

text \<open>The dictionary that \<^verbatim>\<open>generate\<close> returns; the field \<^verbatim>\<open>text\<close> is \<open>response_text\<close>.\<close>

record GenerationResult =
  response_text :: string
  model :: string
  provider :: string
  processing_time :: real
  tokens_used :: nat
  success :: bool

record DobbyClient =
  api_key :: "string option"
  dobby_model :: string
  base_url :: string
  timeout :: nat

record LocalMockClient =
  mock_responses :: "(string \<times> string) list"

datatype llm_client = Dobby DobbyClient | Mock LocalMockClient

text \<open>\<^verbatim>\<open>DobbyClient.__init__(api_key, model)\<close>: a missing or empty argument is falsy.\<close>

definition DobbyClient_init :: "Settings \<Rightarrow> string option \<Rightarrow> string option \<Rightarrow> DobbyClient" where
  "DobbyClient_init s key_arg model_arg =
     \<lparr>api_key = (case key_arg of
                   None \<Rightarrow> fireworks_api_key s
                 | Some k \<Rightarrow> if k = [] then fireworks_api_key s else Some k),
      dobby_model = (case model_arg of
                       None \<Rightarrow>
  ''accounts/sentientfoundation-serverless/models/dobby-mini-unhinged-plus-llama-3-1-8b''
                     | Some m \<Rightarrow> if m = [] then
  ''accounts/sentientfoundation-serverless/models/dobby-mini-unhinged-plus-llama-3-1-8b''
                                else m),
      base_url = ''https://api.fireworks.ai/inference/v1'',
      timeout = 30\<rparr>"

text \<open>\<^verbatim>\<open>DobbyClient.is_available()\<close>\<close>

definition dobby_is_available :: "DobbyClient \<Rightarrow> bool" where
  "dobby_is_available c =
     (case api_key c of None \<Rightarrow> False | Some k \<Rightarrow> k \<noteq> [] \<and> 10 < length k)"

definition LocalMockClient_init :: LocalMockClient where
  "LocalMockClient_init =
     \<lparr>mock_responses =
        [(''summarize'', ''Mock response for summarize''),
         (''context'', ''Mock response for context''),
         (''replies'', ''Mock response for replies'')]\<rparr>"

text \<open>
  \<^verbatim>\<open>LLMClientFactory.create_client()\<close>. Nothing in \<^verbatim>\<open>DobbyClient.__init__\<close> raises,
  so the \<^verbatim>\<open>except\<close> clause around it has no branch here.
\<close>

definition create_client :: "Settings \<Rightarrow> llm_client" where
  "create_client s =
     (if (case fireworks_api_key s of None \<Rightarrow> False | Some k \<Rightarrow> k \<noteq> [] \<and> 10 < length k)
      then (let client = DobbyClient_init s None None
            in if dobby_is_available client then Dobby client else Mock LocalMockClient_init)
      else Mock LocalMockClient_init)"

text \<open>The tweet that \<^verbatim>\<open>LocalMockClient.generate\<close> cuts out of the prompt.\<close>

definition tweet_content :: "string \<Rightarrow> string" where
  "tweet_content prompt =
     (if str_in ''Tweet:'' prompt
      then (let tweet_start = nat (str_find prompt ''Tweet:'' 0 + 6);
                found = str_find prompt ''\<newline>'' tweet_start;
                tweet_end = (if found = - 1 then length prompt else nat found)
            in strip (slice prompt tweet_start tweet_end))
      else ''Sample tweet content'')"

text \<open>
  \<^verbatim>\<open>LocalMockClient.generate(prompt, temperature, max_tokens)\<close>. The sleep is not
  modelled; \<open>start_time\<close> and \<open>end_time\<close> are the two clock readings. No statement of
  the body raises, so the result is the dictionary itself.
\<close>

definition mock_generate ::
  "LocalMockClient \<Rightarrow> string \<Rightarrow> real \<Rightarrow> int \<Rightarrow> real \<Rightarrow> real \<Rightarrow> GenerationResult" where
  "mock_generate client prompt temperature max_tokens start_time end_time =
     (let tweet = tweet_content prompt;
          txt =
            (if str_in ''summarize'' (lower prompt)
             then ''Summary of the tweet: '' @ take 100 tweet @
  ''...\<newline>\<newline>This tweet discusses important topics that are relevant to the audience.\<newline>\<newline>The key points are clearly presented and easy to understand.''
             else if str_in ''context'' (lower prompt)
             then ''Context for the tweet: '' @ take 100 tweet @
  ''...\<newline>\<newline>This provides important background information about the topic.\<newline>\<newline>The context helps readers understand the broader implications.\<newline>\<newline>Additional insights are provided to enhance understanding.''
             else if str_in ''reply'' (lower prompt)
             then ''1. Great point about '' @ take 50 tweet @
  ''...! I'' @ [CHR 0x27] @ ''d love to hear more about this.\<newline>2. This is really interesting - what are your thoughts on the implications?\<newline>3. Thanks for sharing this insight about ''
                  @ take 30 tweet @ ''...!''
             else ''Response to: '' @ take 100 tweet @
  ''...\<newline>\<newline>This is a generated response based on the input content.\<newline>\<newline>The response addresses the key points mentioned in the tweet.'')
      in \<lparr>response_text = txt, model = ''mock-local'', provider = ''local'',
          processing_time = end_time - start_time,
          tokens_used = count_words False txt, success = True\<rparr>)"

section \<open>Properties of the token bucket\<close>

lemma consume_upper:
  "0 \<le> n \<Longrightarrow> tokens (snd (consume b now n)) \<le> of_int (capacity (snd (consume b now n)))"
proof -
  assume "0 \<le> n"
  then have "(0::real) \<le> of_int n" by simp
  then show ?thesis by (auto simp add: consume_def Let_def min_def)
qed

lemma consume_lower:
  "0 \<le> n \<Longrightarrow> 0 \<le> tokens b \<Longrightarrow> tokens b \<le> of_int (capacity b)
     \<Longrightarrow> 0 \<le> (now - last_refill b) * refill_rate b
     \<Longrightarrow> 0 \<le> tokens (snd (consume b now n))"
  by (simp add: consume_def Let_def min_def)

text \<open>
  In exact arithmetic, a denied call for one token in the region where the refill is not
  clamped: the hint is the hint of the bucket before the call, less the time waited.
\<close>

lemma retry_after_refill:
  assumes "0 < refill_rate b" "tokens b + (t - last_refill b) * refill_rate b < 1"
    "1 \<le> capacity b"
  shows "get_retry_after (snd (consume b t 1)) =
     Inr ((1 - tokens b) / refill_rate b - (t - last_refill b))"
proof -
  have c: "(1::real) \<le> of_int (capacity b)" using assms(3) by simp
  have "consume b t 1 =
     (False, b\<lparr>tokens := tokens b + (t - last_refill b) * refill_rate b, last_refill := t\<rparr>)"
    using assms(2) c by (simp add: consume_def Let_def min_def)
  then show ?thesis using assms(1,2)
    by (simp add: get_retry_after_def Let_def field_simps)
qed

text \<open>
  With the identity for the rounding, and numbers that convert to floats, the
  definitions with the float arithmetic written out are those in exact arithmetic.
\<close>

lemma get_retry_after_fl_exact:
  "\<not> to_float_overflows (1 - tokens b) \<Longrightarrow> get_retry_after_fl (\<lambda>x. x) b = get_retry_after b"
  by (simp add: get_retry_after_fl_def get_retry_after_def Let_def)

lemma consume_fl_exact:
  "\<not> to_float_overflows (tokens b) \<Longrightarrow> \<not> to_float_overflows (of_int n)
     \<Longrightarrow> consume_fl (\<lambda>x. x) b now n = Inr (consume b now n)"
  by (simp add: consume_fl_def consume_def Let_def min_def)

lemma mono_round_near_one: "mono round_near_one"
  unfolding mono_def round_near_one_def by auto

text \<open>A call for one token is denied when the refilled balance is below 1.\<close>

lemma consume_fl_denied:
  "(consume_fl fl b t 1 = Inr (False, b')) =
   (\<not> to_float_overflows (tokens b) \<and> refilled fl b t < 1 \<and>
    b' = b\<lparr>tokens := refilled fl b t, last_refill := t\<rparr>)"
  by (auto simp add: consume_fl_def refilled_def Let_def)

text \<open>A later reading never gives a smaller refilled balance.\<close>

lemma refilled_mono:
  assumes "mono fl" "0 \<le> refill_rate b" "t1 \<le> t2"
  shows "refilled fl b t1 \<le> refilled fl b t2"
proof -
  let ?total = "\<lambda>t. fl (fl (tokens b) + fl (fl (t - last_refill b) * refill_rate b))"
  have "fl (t1 - last_refill b) \<le> fl (t2 - last_refill b)"
    using assms(1,3) by (intro monoD[of fl]) simp_all
  then have "fl (t1 - last_refill b) * refill_rate b \<le> fl (t2 - last_refill b) * refill_rate b"
    using assms(2) by (rule mult_right_mono)
  then have "fl (fl (t1 - last_refill b) * refill_rate b)
      \<le> fl (fl (t2 - last_refill b) * refill_rate b)"
    using assms(1) by (rule monoD[rotated])
  then have "fl (tokens b) + fl (fl (t1 - last_refill b) * refill_rate b)
      \<le> fl (tokens b) + fl (fl (t2 - last_refill b) * refill_rate b)"
    by simp
  then have "?total t1 \<le> ?total t2"
    using assms(1) by (rule monoD[rotated])
  then show ?thesis by (simp add: refilled_def Let_def)
qed

text \<open>Below one token, a larger balance never gives a larger hint.\<close>

lemma hint_antitone:
  assumes "mono fl" "0 < refill_rate b1" "refill_rate b2 = refill_rate b1"
    and "tokens b1 \<le> tokens b2" "tokens b2 < 1"
    and "get_retry_after_fl fl b1 = Inr r1" "get_retry_after_fl fl b2 = Inr r2"
  shows "r2 \<le> r1"
proof -
  have r1: "r1 = fl (fl (1 - tokens b1) / refill_rate b1)"
    using assms(2,4,5,6) by (simp add: get_retry_after_fl_def Let_def split: if_splits)
  have r2: "r2 = fl (fl (1 - tokens b2) / refill_rate b1)"
    using assms(2,3,5,7) by (simp add: get_retry_after_fl_def Let_def split: if_splits)
  have "fl (1 - tokens b2) \<le> fl (1 - tokens b1)"
    using assms(1,4) by (intro monoD[of fl]) simp_all
  then have "fl (1 - tokens b2) / refill_rate b1 \<le> fl (1 - tokens b1) / refill_rate b1"
    using assms(2) by (simp add: divide_right_mono)
  then show ?thesis unfolding r1 r2 using assms(1) by (rule monoD[rotated])
qed

text \<open>
  Claim C3, as stated: for every token bucket \<^verbatim>\<open>get_retry_after\<close> returns
  \<open>(1 - tokens) / refill_rate\<close> when the balance is below 1, and the value strictly
  decreases as the elapsed wait increases. It fails in two ways. For the refill rate 0
  the method raises \<^verbatim>\<open>ZeroDivisionError\<close>: such a bucket is what
  \<^verbatim>\<open>RateLimiter.is_allowed\<close> creates for \<^verbatim>\<open>rate_limit_requests = 0\<close>, and the call
  raises. For a bucket of capacity 0 and rate 1/2 the refill is clamped to 0, and the
  hint after a wait of one second and after a wait of two seconds is 2 both times. All
  numbers of the example are floats and every operation on them is exact.
\<close>

theorem get_retry_after_counterexample:
  "tokens (TokenBucket_init 0 0 0) < 1 \<and>
   get_retry_after_fl (\<lambda>x. x) (TokenBucket_init 0 0 0) = Inl ZeroDivisionError \<and>
   is_allowed (default_settings\<lparr>rate_limit_requests := 0\<rparr>) (RateLimiter_init 0)
       ''c1'' (Some ''summarize'') 1 0 0 0 = Inl ZeroDivisionError \<and>
   consume_fl (\<lambda>x. x) (TokenBucket_init 0 (1/2) 0) 1 1
     = Inr (False, \<lparr>capacity = 0, refill_rate = 1/2, tokens = 0, last_refill = 1\<rparr>) \<and>
   get_retry_after_fl (\<lambda>x. x) \<lparr>capacity = 0, refill_rate = 1/2, tokens = 0, last_refill = 1\<rparr>
     = Inr 2 \<and>
   consume_fl (\<lambda>x. x) (TokenBucket_init 0 (1/2) 0) 2 1
     = Inr (False, \<lparr>capacity = 0, refill_rate = 1/2, tokens = 0, last_refill = 2\<rparr>) \<and>
   get_retry_after_fl (\<lambda>x. x) \<lparr>capacity = 0, refill_rate = 1/2, tokens = 0, last_refill = 2\<rparr>
     = Inr 2"
proof -
  have z: "\<not> to_float_overflows 0" "\<not> to_float_overflows 1"
    by (simp_all add: to_float_overflows_def float_limit_def)
  have a: "get_retry_after_fl (\<lambda>x. x) (TokenBucket_init 0 0 0) = Inl ZeroDivisionError"
    using z by (simp add: get_retry_after_fl_def TokenBucket_init_def Let_def)
  have b: "is_allowed (default_settings\<lparr>rate_limit_requests := 0\<rparr>) (RateLimiter_init 0)
       ''c1'' (Some ''summarize'') 1 0 0 0 = Inl ZeroDivisionError"
    by (simp add: is_allowed_def cleanup_old_buckets_def RateLimiter_init_def
        default_settings_def TokenBucket_init_def consume_def get_retry_after_def Let_def)
  have c: "consume_fl (\<lambda>x. x) (TokenBucket_init 0 (1/2) 0) t 1
     = Inr (False, \<lparr>capacity = 0, refill_rate = 1/2, tokens = 0, last_refill = t\<rparr>)"
    if "0 \<le> t" for t
    using z that by (simp add: consume_fl_def TokenBucket_init_def Let_def)
  have d: "get_retry_after_fl (\<lambda>x. x)
      \<lparr>capacity = 0, refill_rate = 1/2, tokens = 0, last_refill = t\<rparr> = Inr 2" for t
    using z by (simp add: get_retry_after_fl_def Let_def)
  show ?thesis using a b c[of 1] c[of 2] d by (simp add: TokenBucket_init_def)
qed

text \<open>
  Rounding alone makes the hint stay as it is, too: for a bucket of capacity 5 and rate
  1/2 that is empty at the reading 0, the hints after the waits \<open>2^-60\<close> and \<open>2^-59\<close> are
  2 both times, since \<open>1 - 2^-61\<close> and \<open>1 - 2^-60\<close> are rounded to the float 1.
\<close>

lemma retry_after_rounding_flat:
  "consume_fl round_near_one \<lparr>capacity = 5, refill_rate = 1/2, tokens = 0, last_refill = 0\<rparr>
      (1 / 2 ^ 60) 1
     = Inr (False, \<lparr>capacity = 5, refill_rate = 1/2, tokens = 1 / 2 ^ 61,
                    last_refill = 1 / 2 ^ 60\<rparr>) \<and>
   get_retry_after_fl round_near_one
      \<lparr>capacity = 5, refill_rate = 1/2, tokens = 1 / 2 ^ 61, last_refill = 1 / 2 ^ 60\<rparr>
     = Inr 2 \<and>
   consume_fl round_near_one \<lparr>capacity = 5, refill_rate = 1/2, tokens = 0, last_refill = 0\<rparr>
      (1 / 2 ^ 59) 1
     = Inr (False, \<lparr>capacity = 5, refill_rate = 1/2, tokens = 1 / 2 ^ 60,
                    last_refill = 1 / 2 ^ 59\<rparr>) \<and>
   get_retry_after_fl round_near_one
      \<lparr>capacity = 5, refill_rate = 1/2, tokens = 1 / 2 ^ 60, last_refill = 1 / 2 ^ 59\<rparr>
     = Inr 2"
  by (simp add: consume_fl_def get_retry_after_fl_def round_near_one_def
      to_float_overflows_def float_limit_def Let_def)

text \<open>
  Claim C3, amended. \<^verbatim>\<open>get_retry_after\<close> returns 0 whenever the balance is at least 1.
  For a balance below 1 (a float, or an integer that converts to a float) it returns
  the quotient \<open>(1 - tokens) / refill_rate\<close> as float arithmetic computes it when the
  refill rate is not 0, and raises \<^verbatim>\<open>ZeroDivisionError\<close> when the rate is 0; for an
  integer balance too large to convert it raises \<^verbatim>\<open>OverflowError\<close>. For a positive
  refill rate and any monotone rounding, when a call for one token at the reading \<open>t2\<close>
  is denied, then so is the call at any earlier reading \<open>t1\<close> made in its place, it
  leaves no larger a balance, and the hint after the longer wait is never greater than
  the hint after the shorter wait: the hint does not increase with the elapsed wait. It
  need not decrease.
\<close>

theorem get_retry_after_rounded:
  "(1 \<le> tokens b \<longrightarrow> get_retry_after_fl fl b = Inr 0) \<and>
   (tokens b < 1 \<and> \<not> to_float_overflows (1 - tokens b) \<and> refill_rate b \<noteq> 0 \<longrightarrow>
      get_retry_after_fl fl b = Inr (fl (fl (1 - tokens b) / refill_rate b))) \<and>
   (tokens b < 1 \<and> \<not> to_float_overflows (1 - tokens b) \<and> refill_rate b = 0 \<longrightarrow>
      get_retry_after_fl fl b = Inl ZeroDivisionError) \<and>
   (tokens b < 1 \<and> to_float_overflows (1 - tokens b) \<longrightarrow>
      get_retry_after_fl fl b = Inl OverflowError) \<and>
   (mono fl \<and> 0 < refill_rate b \<and> t1 \<le> t2 \<and> consume_fl fl b t2 1 = Inr (False, b2) \<longrightarrow>
      (\<exists>b1. consume_fl fl b t1 1 = Inr (False, b1) \<and> tokens b1 \<le> tokens b2 \<and>
            (\<forall>r1 r2. get_retry_after_fl fl b1 = Inr r1 \<and> get_retry_after_fl fl b2 = Inr r2
               \<longrightarrow> r2 \<le> r1)))"
proof (intro conjI impI)
  assume "1 \<le> tokens b"
  then show "get_retry_after_fl fl b = Inr 0" by (simp add: get_retry_after_fl_def)
next
  assume "tokens b < 1 \<and> \<not> to_float_overflows (1 - tokens b) \<and> refill_rate b \<noteq> 0"
  then show "get_retry_after_fl fl b = Inr (fl (fl (1 - tokens b) / refill_rate b))"
    by (simp add: get_retry_after_fl_def Let_def)
next
  assume "tokens b < 1 \<and> \<not> to_float_overflows (1 - tokens b) \<and> refill_rate b = 0"
  then show "get_retry_after_fl fl b = Inl ZeroDivisionError"
    by (simp add: get_retry_after_fl_def Let_def)
next
  assume "tokens b < 1 \<and> to_float_overflows (1 - tokens b)"
  then show "get_retry_after_fl fl b = Inl OverflowError"
    by (simp add: get_retry_after_fl_def Let_def)
next
  assume a: "mono fl \<and> 0 < refill_rate b \<and> t1 \<le> t2 \<and> consume_fl fl b t2 1 = Inr (False, b2)"
  let ?b1 = "b\<lparr>tokens := refilled fl b t1, last_refill := t1\<rparr>"
  from a have d2: "\<not> to_float_overflows (tokens b)" "refilled fl b t2 < 1"
      "b2 = b\<lparr>tokens := refilled fl b t2, last_refill := t2\<rparr>"
    by (simp_all add: consume_fl_denied)
  have le: "refilled fl b t1 \<le> refilled fl b t2"
    using a by (intro refilled_mono) simp_all
  with d2 have c1: "consume_fl fl b t1 1 = Inr (False, ?b1)"
    by (simp add: consume_fl_denied)
  have t: "tokens ?b1 \<le> tokens b2" using le d2(3) by simp
  have h: "r2 \<le> r1"
    if "get_retry_after_fl fl ?b1 = Inr r1 \<and> get_retry_after_fl fl b2 = Inr r2" for r1 r2
  proof (rule hint_antitone[of fl ?b1 b2])
    show "mono fl" using a by simp
    show "0 < refill_rate ?b1" using a by simp
    show "refill_rate b2 = refill_rate ?b1" using d2(3) by simp
    show "tokens ?b1 \<le> tokens b2" by (rule t)
    show "tokens b2 < 1" using d2(2,3) by simp
    show "get_retry_after_fl fl ?b1 = Inr r1" using that by simp
    show "get_retry_after_fl fl b2 = Inr r2" using that by simp
  qed
  show "\<exists>b1. consume_fl fl b t1 1 = Inr (False, b1) \<and> tokens b1 \<le> tokens b2 \<and>
            (\<forall>r1 r2. get_retry_after_fl fl b1 = Inr r1 \<and> get_retry_after_fl fl b2 = Inr r2
               \<longrightarrow> r2 \<le> r1)"
    using c1 t h by blast
qed

text \<open>
  The theorem at buckets of capacity 5: with one token the hint is 0; empty, at the rate
  1/2, it is 2 seconds; empty, at the rate 0, the method raises; with the integer
  balance \<open>- 2^1024\<close> it raises; and after the waits \<open>2^-60\<close> and \<open>2^-59\<close>, with the
  rounding \<open>round_near_one\<close>, the second hint is not greater than the first.
\<close>

theorem get_retry_after_rounded_witness:
  "get_retry_after_fl round_near_one
      \<lparr>capacity = 5, refill_rate = 1/2, tokens = 1, last_refill = 0\<rparr> = Inr 0 \<and>
   get_retry_after_fl round_near_one
      \<lparr>capacity = 5, refill_rate = 1/2, tokens = 0, last_refill = 0\<rparr> = Inr 2 \<and>
   get_retry_after_fl round_near_one
      \<lparr>capacity = 5, refill_rate = 0, tokens = 0, last_refill = 0\<rparr> = Inl ZeroDivisionError \<and>
   get_retry_after_fl round_near_one
      \<lparr>capacity = 5, refill_rate = 1/2, tokens = - (2 ^ 1024), last_refill = 0\<rparr>
     = Inl OverflowError \<and>
   mono round_near_one \<and>
   consume_fl round_near_one \<lparr>capacity = 5, refill_rate = 1/2, tokens = 0, last_refill = 0\<rparr>
      (1 / 2 ^ 59) 1
     = Inr (False, \<lparr>capacity = 5, refill_rate = 1/2, tokens = 1 / 2 ^ 60,
                    last_refill = 1 / 2 ^ 59\<rparr>) \<and>
   (\<exists>b1. consume_fl round_near_one
            \<lparr>capacity = 5, refill_rate = 1/2, tokens = 0, last_refill = 0\<rparr> (1 / 2 ^ 60) 1
            = Inr (False, b1) \<and>
          tokens b1 \<le> 1 / 2 ^ 60 \<and>
          (\<forall>r1 r2. get_retry_after_fl round_near_one b1 = Inr r1 \<and>
                   get_retry_after_fl round_near_one
                     \<lparr>capacity = 5, refill_rate = 1/2, tokens = 1 / 2 ^ 60,
                      last_refill = 1 / 2 ^ 59\<rparr> = Inr r2
             \<longrightarrow> r2 \<le> r1))"
proof -
  let ?full = "\<lparr>capacity = 5, refill_rate = 1/2, tokens = 1, last_refill = 0\<rparr>"
  let ?empty = "\<lparr>capacity = 5, refill_rate = 1/2, tokens = 0, last_refill = 0\<rparr>"
  let ?stuck = "\<lparr>capacity = 5, refill_rate = 0, tokens = 0, last_refill = 0\<rparr>"
  let ?huge = "\<lparr>capacity = 5, refill_rate = 1/2, tokens = - (2 ^ 1024), last_refill = 0\<rparr>"
  let ?b2 = "\<lparr>capacity = 5, refill_rate = 1/2, tokens = 1 / 2 ^ 60, last_refill = 1 / 2 ^ 59\<rparr>"
  have z: "\<not> to_float_overflows 1" "to_float_overflows (1 + 2 ^ 1024)"
    by (simp_all add: to_float_overflows_def float_limit_def)
  have c2: "consume_fl round_near_one ?empty (1 / 2 ^ 59) 1 = Inr (False, ?b2)"
    using retry_after_rounding_flat by simp
  have r: "round_near_one (round_near_one 1 / (1/2)) = 2"
    by (simp add: round_near_one_def)
  note w1 = get_retry_after_rounded[where b="?full" and fl=round_near_one]
  note w2 = get_retry_after_rounded[where b="?empty" and fl=round_near_one and ?t1.0="1 / 2 ^ 60"
      and ?t2.0="1 / 2 ^ 59" and ?b2.0="?b2"]
  note w3 = get_retry_after_rounded[where b="?stuck" and fl=round_near_one]
  note w4 = get_retry_after_rounded[where b="?huge" and fl=round_near_one]
  have 1: "get_retry_after_fl round_near_one ?full = Inr 0" using w1 by simp
  have 2: "get_retry_after_fl round_near_one ?empty = Inr 2" using w2 z r by simp
  have 3: "get_retry_after_fl round_near_one ?stuck = Inl ZeroDivisionError" using w3 z by simp
  have 4: "get_retry_after_fl round_near_one ?huge = Inl OverflowError" using w4 z by simp
  have 5: "\<exists>b1. consume_fl round_near_one ?empty (1 / 2 ^ 60) 1 = Inr (False, b1) \<and>
          tokens b1 \<le> 1 / 2 ^ 60 \<and>
          (\<forall>r1 r2. get_retry_after_fl round_near_one b1 = Inr r1 \<and>
                   get_retry_after_fl round_near_one ?b2 = Inr r2 \<longrightarrow> r2 \<le> r1)"
    using w2 mono_round_near_one c2 by simp
  show ?thesis using 1 2 3 4 5 mono_round_near_one c2 by blast
qed

text \<open>
  Claim C8, as stated: every \<^verbatim>\<open>consume(n)\<close> with \<open>n \<ge> 0\<close> preserves
  \<open>0 \<le> tokens \<le> capacity\<close>. It fails when the clock reading of a call is earlier than
  \<open>last_refill\<close> (the wall clock was set back): the refill is then negative. A bucket of
  capacity 1 and rate 1/2, created and emptied at the reading 10, is called again at the
  reading 8 and is left with the balance -1.
\<close>

theorem consume_invariant_counterexample:
  "0 \<le> capacity (TokenBucket_init 1 (1/2) 10) \<and>
   bucket_inv (TokenBucket_init 1 (1/2) 10) \<and>
   bucket_inv (snd (consume (TokenBucket_init 1 (1/2) 10) 10 1)) \<and>
   \<not> bucket_inv (snd (consume (snd (consume (TokenBucket_init 1 (1/2) 10) 10 1)) 8 1)) \<and>
   tokens (snd (consume (snd (consume (TokenBucket_init 1 (1/2) 10) 10 1)) 8 1)) = - 1"
  by (simp add: bucket_inv_def consume_def TokenBucket_init_def Let_def)

text \<open>
  Claim C8, amended. A bucket created with a capacity \<open>C \<ge> 0\<close> satisfies
  \<open>0 \<le> tokens \<le> capacity\<close>; after every \<^verbatim>\<open>consume(n)\<close> with \<open>n \<ge> 0\<close> the balance is at
  most the capacity, whatever the bucket was before; and the call preserves the whole
  invariant when the refill of the call, \<open>(now - last_refill) * refill_rate\<close>, is not
  negative (a refill rate that is not negative and a clock reading that is not earlier
  than \<open>last_refill\<close>).
\<close>

theorem consume_invariant:
  "(0 \<le> C \<longrightarrow> bucket_inv (TokenBucket_init C r t)) \<and>
   (0 \<le> n \<longrightarrow> tokens (snd (consume b now n)) \<le> of_int (capacity (snd (consume b now n)))) \<and>
   (0 \<le> n \<and> bucket_inv b \<and> 0 \<le> (now - last_refill b) * refill_rate b \<longrightarrow>
      bucket_inv (snd (consume b now n)))"
  using consume_upper[of n b now] consume_lower[of n b now]
  by (simp add: bucket_inv_def TokenBucket_init_def)

text \<open>The theorem at a bucket of capacity 5 and rate 1/2 created at 0 and called at 1.\<close>

theorem consume_invariant_witness:
  "(0::int) \<le> 5 \<and> bucket_inv (TokenBucket_init 5 (1/2) 0) \<and> (0::int) \<le> 1 \<and>
   0 \<le> (1 - last_refill (TokenBucket_init 5 (1/2) 0)) * refill_rate (TokenBucket_init 5 (1/2) 0) \<and>
   tokens (snd (consume (TokenBucket_init 5 (1/2) 0) 1 1))
     \<le> of_int (capacity (snd (consume (TokenBucket_init 5 (1/2) 0) 1 1))) \<and>
   bucket_inv (snd (consume (TokenBucket_init 5 (1/2) 0) 1 1))"
  using consume_invariant[of 5 "1/2" 0 1 "TokenBucket_init 5 (1/2) 0" 1]
  by (simp add: TokenBucket_init_def)

section \<open>Properties of the in-process limiter\<close>

lemma cleanup_keeps:
  "buckets rl key = Some b \<Longrightarrow> last_refill b = now
     \<Longrightarrow> buckets (cleanup_old_buckets rl now) key = Some b"
  by (simp add: cleanup_old_buckets_def Let_def)

lemma cleanup_none:
  "buckets rl key = None \<Longrightarrow> buckets (cleanup_old_buckets rl now) key = None"
  by (simp add: cleanup_old_buckets_def Let_def)

text \<open>The first call for a key creates its bucket full and takes one token.\<close>

lemma is_allowed_fresh:
  assumes "buckets rl (get_bucket_key c e) = None" "rate_limit_window s \<noteq> 0"
    "1 \<le> rate_limit_requests s"
  shows "\<exists>rl'. is_allowed s rl c e 1 now now now = Inr ((True, 0), rl') \<and>
     buckets rl' (get_bucket_key c e) =
       Some \<lparr>capacity = rate_limit_requests s,
             refill_rate = of_int (rate_limit_requests s) / of_int (rate_limit_window s),
             tokens = of_int (rate_limit_requests s) - 1, last_refill = now\<rparr>"
proof -
  have "(1::real) \<le> of_int (rate_limit_requests s)" using assms(3) by simp
  then show ?thesis
    using cleanup_none[OF assms(1), of now] assms(2)
    by (simp add: is_allowed_def Let_def TokenBucket_init_def consume_def)
qed

lemma is_allowed_admit:
  assumes "buckets rl (get_bucket_key c e) = Some b" "last_refill b = now"
    "1 \<le> tokens b" "tokens b \<le> of_int (capacity b)"
  shows "\<exists>rl'. is_allowed s rl c e 1 now now now = Inr ((True, 0), rl') \<and>
     buckets rl' (get_bucket_key c e) = Some (b\<lparr>tokens := tokens b - 1\<rparr>)"
  using cleanup_keeps[OF assms(1,2)] assms(2,3,4)
  by (simp add: is_allowed_def Let_def consume_def)

lemma is_allowed_deny:
  assumes "buckets rl (get_bucket_key c e) = Some b" "last_refill b = now"
    "tokens b < 1" "tokens b \<le> of_int (capacity b)" "refill_rate b \<noteq> 0"
  shows "\<exists>rl'. is_allowed s rl c e 1 now now now =
       Inr ((False, (1 - tokens b) / refill_rate b), rl') \<and>
     buckets rl' (get_bucket_key c e) = Some b"
  using cleanup_keeps[OF assms(1,2)] assms(2,3,4,5)
  by (simp add: is_allowed_def Let_def consume_def get_retry_after_def)

text \<open>Five requests per ten seconds: six calls for a new key at one instant.\<close>

lemma six_calls:
  assumes s: "rate_limit_requests s = 5" "rate_limit_window s = 10"
    and fresh: "buckets rl (get_bucket_key c e) = None"
  shows "\<exists>rl'. is_allowed_run s rl c e now 6 =
     Inr ([(True, 0), (True, 0), (True, 0), (True, 0), (True, 0), (False, 2)], rl')"
proof -
  let ?k = "get_bucket_key c e"
  let ?b = "\<lambda>t. \<lparr>capacity = 5, refill_rate = 1/2, tokens = t, last_refill = now\<rparr>"
  let ?call = "\<lambda>rl. is_allowed s rl c e 1 now now now"
  obtain rl1 where 1: "?call rl = Inr ((True, 0), rl1)" "buckets rl1 ?k = Some (?b 4)"
    using is_allowed_fresh[OF fresh, of s now] s by auto
  obtain rl2 where 2: "?call rl1 = Inr ((True, 0), rl2)" "buckets rl2 ?k = Some (?b 3)"
    using is_allowed_admit[OF 1(2), of now s] by auto
  obtain rl3 where 3: "?call rl2 = Inr ((True, 0), rl3)" "buckets rl3 ?k = Some (?b 2)"
    using is_allowed_admit[OF 2(2), of now s] by auto
  obtain rl4 where 4: "?call rl3 = Inr ((True, 0), rl4)" "buckets rl4 ?k = Some (?b 1)"
    using is_allowed_admit[OF 3(2), of now s] by auto
  obtain rl5 where 5: "?call rl4 = Inr ((True, 0), rl5)" "buckets rl5 ?k = Some (?b 0)"
    using is_allowed_admit[OF 4(2), of now s] by auto
  obtain rl6 where 6: "?call rl5 = Inr ((False, 2), rl6)"
    using is_allowed_deny[OF 5(2), of now s] by auto
  have "is_allowed_run s rl c e now (Suc (Suc (Suc (Suc (Suc (Suc 0)))))) =
     Inr ([(True, 0), (True, 0), (True, 0), (True, 0), (True, 0), (False, 2)], rl6)"
    by (simp add: 1 2 3 4 5 6)
  then show ?thesis by (simp add: eval_nat_numeral)
qed

text \<open>
  Claim C2. With \<^verbatim>\<open>rate_limit_requests = 5\<close> and \<^verbatim>\<open>rate_limit_window = 10\<close> (refill
  rate 1/2 per second), a limiter that has no bucket yet for the key of
  \<^verbatim>\<open>("c1", "summarize")\<close>, and every clock reading equal to \<open>now\<close>: the first five
  calls of \<^verbatim>\<open>is_allowed("c1", "summarize")\<close> answer \<open>(True, 0)\<close> and the sixth answers
  \<open>(False, 2)\<close>, where \<open>2 = (1 - 0) / (1/2)\<close>.
\<close>

theorem is_allowed_five_then_denied:
  assumes "rate_limit_requests s = 5" and "rate_limit_window s = 10"
    and "buckets rl (get_bucket_key ''c1'' (Some ''summarize'')) = None"
  shows "\<exists>rl'. is_allowed_run s rl ''c1'' (Some ''summarize'') now 6 =
     Inr ([(True, 0), (True, 0), (True, 0), (True, 0), (True, 0), (False, (1 - 0) / (1/2))], rl')"
  using six_calls[OF assms, of now] by simp

text \<open>The theorem at a limiter constructed at the reading 0.\<close>

theorem is_allowed_five_then_denied_witness:
  "\<exists>rl'. is_allowed_run (default_settings\<lparr>rate_limit_requests := 5, rate_limit_window := 10\<rparr>)
      (RateLimiter_init 0) ''c1'' (Some ''summarize'') 0 6 =
     Inr ([(True, 0), (True, 0), (True, 0), (True, 0), (True, 0), (False, 2)], rl')"
  using is_allowed_five_then_denied
          [of "default_settings\<lparr>rate_limit_requests := 5, rate_limit_window := 10\<rparr>"
              "RateLimiter_init 0" 0]
  by (simp add: RateLimiter_init_def)




section \<open>Choosing the limiter when the shared store is down\<close>




section \<open>Properties of the shared-store limiter\<close>

lemmas redis_defs = redis_is_allowed_def redis_is_allowed_try_def pipeline_execute_def
  zremrangebyscore_def zcard_def zadd_def expire_def zrange_first_def elapse_def redis_del_def
  redis_empty_def redis_key_def default_settings_def Let_def

text \<open>
  Claim C6. Whenever the body of the \<^verbatim>\<open>try\<close> block of
  \<^verbatim>\<open>RedisRateLimiter.is_allowed\<close> raises an exception \<open>err\<close>, the call answers
  \<open>(True, 0)\<close>; in particular when \<^verbatim>\<open>pipe.execute()\<close> raises, and when \<^verbatim>\<open>zrange\<close>
  raises. The call returns an answer in every case: the exception does not leave it.
\<close>

theorem redis_is_allowed_fail_open:
  "(fst (redis_is_allowed_try s st c e n now exec_fault zrange_fault) = Inl err \<longrightarrow>
      fst (redis_is_allowed s st c e n now exec_fault zrange_fault) = (True, 0)) \<and>
   (exec_fault = Some err \<longrightarrow>
      fst (redis_is_allowed s st c e n now exec_fault zrange_fault) = (True, 0)) \<and>
   (zrange_fault = Some err \<longrightarrow>
      fst (redis_is_allowed s st c e n now exec_fault zrange_fault) = (True, 0))"
  by (auto simp add: redis_is_allowed_def redis_is_allowed_try_def Let_def
      split: prod.splits sum.splits option.splits list.splits)

text \<open>
  The theorem in the scenario, five seconds after the first request, where a second
  request would be denied: with \<^verbatim>\<open>zrange\<close> raising the body raises and the answer is
  \<open>(True, 0)\<close>; with \<^verbatim>\<open>pipe.execute()\<close> raising the answer is \<open>(True, 0)\<close>.
\<close>

theorem redis_is_allowed_fail_open_witness:
  "fst (redis_is_allowed_try one_per_ten (elapse store_after_first 5) ''c1'' (Some ''summarize'')
          1 5 None (Some ConnectionError)) = Inl ConnectionError \<and>
   fst (redis_is_allowed one_per_ten (elapse store_after_first 5) ''c1'' (Some ''summarize'')
          1 5 None (Some ConnectionError)) = (True, 0) \<and>
   fst (redis_is_allowed one_per_ten (elapse store_after_first 5) ''c1'' (Some ''summarize'')
          1 5 (Some ConnectionError) None) = (True, 0)"
  using redis_is_allowed_fail_open
          [of one_per_ten "elapse store_after_first 5" "''c1''" "Some ''summarize''" 1 5
              None "Some ConnectionError" ConnectionError]
        redis_is_allowed_fail_open
          [of one_per_ten "elapse store_after_first 5" "''c1''" "Some ''summarize''" 1 5
              "Some ConnectionError" None ConnectionError]
  by (simp add: one_per_ten_def store_after_first_def redis_defs)











text \<open>
  The same scenario without the denied request: at the reading 11 the request is
  admitted. With it, the request at 11 is denied with the hint 4.
\<close>

lemma denied_request_delays_recovery:
  "fst (redis_is_allowed one_per_ten (elapse store_after_first 11) ''c1'' (Some ''summarize'')
          1 11 None None) = (True, 0) \<and>
   fst (redis_is_allowed one_per_ten
          (elapse (snd (redis_is_allowed one_per_ten (elapse store_after_first 5) ''c1''
                         (Some ''summarize'') 1 5 None None)) 6)
          ''c1'' (Some ''summarize'') 1 11 None None) = (False, 4)"
  by (simp add: one_per_ten_def store_after_first_def redis_defs)

section \<open>Properties of the cache\<close>

lemma material_persona: "p1 \<noteq> p2 \<Longrightarrow> key_material v t m p1 \<noteq> key_material v t m p2"
  by (simp add: key_material_def Let_def)

lemma material_mode: "m1 \<noteq> m2 \<Longrightarrow> key_material v t m1 p \<noteq> key_material v t m2 p"
  by (simp add: key_material_def Let_def)

lemma material_version: "v1 \<noteq> v2 \<Longrightarrow> key_material v1 t m p \<noteq> key_material v2 t m p"
  by (simp add: key_material_def Let_def)

lemma generate_key_eq:
  "(generate_key_version L v1 t1 m1 p1 = generate_key_version L v2 t2 m2 p2) =
   (sha256_hexdigest L (key_material v1 t1 m1 p1) = sha256_hexdigest L (key_material v2 t2 m2 p2))"
  by (simp add: generate_key_version_def Let_def)

text \<open>
  Claim C4. \<^verbatim>\<open>generate_key\<close> is a function of its arguments and of nothing else, and
  two texts that are equal after \<^verbatim>\<open>strip\<close> and \<^verbatim>\<open>lower\<close> give the same key for the
  same mode and persona. Another persona (mode and text kept), another mode (persona and
  text kept) or another version string (all three kept) changes the string that is
  hashed, and so changes the key, unless the hash function sends the two different
  strings to one digest. The digest is that of SHA-256, a function of the Python library
  with finitely many values, which is a parameter here: \<open>no_collision\<close> says that it
  separates the two strings at hand.
\<close>

theorem generate_key_spec:
  "(lower (strip t1) = lower (strip t2) \<longrightarrow> generate_key L t1 m p = generate_key L t2 m p) \<and>
   (p1 \<noteq> p2 \<and> no_collision L (key_material ''v2'' t m p1) (key_material ''v2'' t m p2) \<longrightarrow>
      generate_key L t m p1 \<noteq> generate_key L t m p2) \<and>
   (m1 \<noteq> m2 \<and> no_collision L (key_material ''v2'' t m1 p) (key_material ''v2'' t m2 p) \<longrightarrow>
      generate_key L t m1 p \<noteq> generate_key L t m2 p) \<and>
   (v1 \<noteq> v2 \<and> no_collision L (key_material v1 t m p) (key_material v2 t m p) \<longrightarrow>
      generate_key_version L v1 t m p \<noteq> generate_key_version L v2 t m p)"
proof (intro conjI impI)
  assume "lower (strip t1) = lower (strip t2)"
  then show "generate_key L t1 m p = generate_key L t2 m p"
    by (simp add: generate_key_def generate_key_version_def key_material_def Let_def)
next
  assume "p1 \<noteq> p2 \<and> no_collision L (key_material ''v2'' t m p1) (key_material ''v2'' t m p2)"
  then show "generate_key L t m p1 \<noteq> generate_key L t m p2"
    using material_persona[of p1 p2 "''v2''" t m]
    by (simp add: generate_key_def generate_key_eq no_collision_def)
next
  assume "m1 \<noteq> m2 \<and> no_collision L (key_material ''v2'' t m1 p) (key_material ''v2'' t m2 p)"
  then show "generate_key L t m1 p \<noteq> generate_key L t m2 p"
    using material_mode[of m1 m2 "''v2''" t p]
    by (simp add: generate_key_def generate_key_eq no_collision_def)
next
  assume "v1 \<noteq> v2 \<and> no_collision L (key_material v1 t m p) (key_material v2 t m p)"
  then show "generate_key_version L v1 t m p \<noteq> generate_key_version L v2 t m p"
    using material_version[of v1 v2 t m p]
    by (simp add: generate_key_eq no_collision_def)
qed

lemma normalized_hello:
  "lower (strip ''  Hello World '') = lower (strip ''hello world'')"
  by (simp add: lower_def strip_def is_space_def is_upper_def)

text \<open>
  The theorem at the text \<^verbatim>\<open>"Hello World"\<close>, with every string standing for its own
  digest.
\<close>

theorem generate_key_spec_witness:
  "lower (strip ''  Hello World '') = lower (strip ''hello world'') \<and>
   generate_key plain_lib ''  Hello World '' ''summarize'' ''human''
     = generate_key plain_lib ''hello world'' ''summarize'' ''human'' \<and>
   ''human'' \<noteq> ''curator'' \<and>
   no_collision plain_lib (key_material ''v2'' ''Hello World'' ''summarize'' ''human'')
     (key_material ''v2'' ''Hello World'' ''summarize'' ''curator'') \<and>
   generate_key plain_lib ''Hello World'' ''summarize'' ''human''
     \<noteq> generate_key plain_lib ''Hello World'' ''summarize'' ''curator'' \<and>
   ''summarize'' \<noteq> ''context'' \<and>
   no_collision plain_lib (key_material ''v2'' ''Hello World'' ''summarize'' ''human'')
     (key_material ''v2'' ''Hello World'' ''context'' ''human'') \<and>
   generate_key plain_lib ''Hello World'' ''summarize'' ''human''
     \<noteq> generate_key plain_lib ''Hello World'' ''context'' ''human'' \<and>
   ''v2'' \<noteq> ''v3'' \<and>
   no_collision plain_lib (key_material ''v2'' ''Hello World'' ''summarize'' ''human'')
     (key_material ''v3'' ''Hello World'' ''summarize'' ''human'') \<and>
   generate_key_version plain_lib ''v2'' ''Hello World'' ''summarize'' ''human''
     \<noteq> generate_key_version plain_lib ''v3'' ''Hello World'' ''summarize'' ''human''"
proof -
  have nc: "no_collision plain_lib x y" for x y
    by (simp add: no_collision_def plain_lib_def)
  have a: "(''human''::string) \<noteq> ''curator''" "(''summarize''::string) \<noteq> ''context''"
    "(''v2''::string) \<noteq> ''v3''" by simp_all
  from generate_key_spec
         [where L=plain_lib and ?t1.0="''  Hello World ''" and ?t2.0="''hello world''"
            and m="''summarize''" and p="''human''" and ?p1.0="''human''"
            and ?p2.0="''curator''" and t="''Hello World''" and ?m1.0="''summarize''"
            and ?m2.0="''context''" and ?v1.0="''v2''" and ?v2.0="''v3''"]
       normalized_hello nc a
  show ?thesis by blast
qed

text \<open>
  A remark beside claim C4: the separator of the hashed string may occur in its parts,
  so a change of mode and persona together can leave the key as it was.
\<close>

lemma generate_key_colon:
  "generate_key L ''x'' ''a'' ''b:c'' = generate_key L ''x'' ''a:b'' ''c''"
  by (simp add: generate_key_def generate_key_version_def key_material_def Let_def)

lemma get_after_set:
  assumes "json_dumps L v = Inr doc" "json_loads L doc = Inr v" "v \<noteq> JNull"
    and "ttl' = (case ttl_arg of None \<Rightarrow> cache_ttl s
            | Some t \<Rightarrow> if t = 0 then cache_ttl s else t)"
    and "\<not> to_float_overflows (of_int ttl')"
    and "t_get < fl (t_exp + fl (of_int ttl'))"
  shows "fst (SQLiteCache_set fl L s db k v ttl_arg t_exp t_created None) \<and>
         SQLiteCache_get L (snd (SQLiteCache_set fl L s db k v ttl_arg t_exp t_created None))
           k t_get None = Some v"
  using assms by (simp add: SQLiteCache_get_def SQLiteCache_set_def Let_def)







text \<open>
  Claim C1 says that \<^verbatim>\<open>cache_manager.set("Hello World", "summarize", "human", result,
  ttl=0)\<close> followed at once by \<^verbatim>\<open>get\<close> is a miss. The code does otherwise: in
  \<^verbatim>\<open>ttl or settings.cache_ttl\<close> the \<open>ttl\<close> 0 is falsy, the row is written with the
  default time to live (a \<^verbatim>\<open>settings.cache_ttl\<close> that converts to a float), and a
  \<^verbatim>\<open>get\<close> at any reading earlier than the stored \<^verbatim>\<open>expires_at\<close>, the float sum of
  the reading of the \<^verbatim>\<open>set\<close> and \<^verbatim>\<open>settings.cache_ttl\<close>, returns the stored
  dictionary.
\<close>

theorem cache_set_ttl_zero_hits:
  assumes "json_dumps L (cache_data L ''Hello World'' ''summarize'' ''human'' result t_cached)
      = Inr doc"
    and "json_loads L doc
      = Inr (cache_data L ''Hello World'' ''summarize'' ''human'' result t_cached)"
    and "\<not> to_float_overflows (of_int (cache_ttl s))"
    and "t_get < fl (t_exp + fl (of_int (cache_ttl s)))"
  shows "CacheManager_get L
      (snd (CacheManager_set fl L s db ''Hello World'' ''summarize'' ''human'' result (Some 0)
             t_cached t_exp t_created None))
      ''Hello World'' ''summarize'' ''human'' t_get None
    = Some (cache_data L ''Hello World'' ''summarize'' ''human'' result t_cached)"
proof -
  let ?data = "cache_data L ''Hello World'' ''summarize'' ''human'' result t_cached"
  let ?key = "generate_key L ''Hello World'' ''summarize'' ''human''"
  have n: "?data \<noteq> JNull" by (simp add: cache_data_def)
  have "fst (SQLiteCache_set fl L s db ?key ?data (Some 0) t_exp t_created None) \<and>
      SQLiteCache_get L (snd (SQLiteCache_set fl L s db ?key ?data (Some 0) t_exp t_created None))
        ?key t_get None = Some ?data"
    using assms n by (intro get_after_set[of L ?data doc "cache_ttl s"]) simp_all
  then show ?thesis by (simp add: CacheManager_get_def CacheManager_set_def Let_def)
qed

text \<open>
  The default settings (a day to live), an empty table, every clock reading 1000, exact
  arithmetic: the \<^verbatim>\<open>get\<close> returns the dictionary that \<^verbatim>\<open>set\<close> stored.
\<close>

theorem cache_set_ttl_zero_hits_witness:
  "CacheManager_get plain_lib
      (snd (CacheManager_set (\<lambda>x. x) plain_lib default_settings Map.empty ''Hello World''
             ''summarize'' ''human'' (JObj [(''summary'', JStr ''hi'')]) (Some 0)
             1000 1000 1000 None))
      ''Hello World'' ''summarize'' ''human'' 1000 None
    = Some (JObj [(''result'', JObj [(''summary'', JStr ''hi'')]), (''cached_at'', JNum 1000),
              (''mode'', JStr ''summarize''), (''persona'', JStr ''human''),
              (''text_hash'', JStr ''Hello World'')])"
proof -
  have o: "\<not> to_float_overflows (of_int (cache_ttl default_settings))"
    by (simp add: to_float_overflows_def float_limit_def default_settings_def)
  show ?thesis
    using cache_set_ttl_zero_hits
            [where L=plain_lib and result="JObj [(''summary'', JStr ''hi'')]" and t_cached=1000
               and t_get=1000 and t_exp=1000 and s=default_settings and fl="\<lambda>x. x"
               and db=Map.empty and t_created=1000] o
    by (simp add: plain_lib_def cache_data_def default_settings_def)
qed

section \<open>Properties of the generation clients\<close>

lemma startswith_map: "startswith s p \<Longrightarrow> startswith (map f s) (map f p)"
  by (induction s p rule: startswith.induct) auto

lemma str_in_map: "str_in needle hay \<Longrightarrow> str_in (map f needle) (map f hay)"
proof (induction hay)
  case Nil
  then show ?case using startswith_map[of "[]" needle f] by simp
next
  case (Cons c hay)
  then show ?case using startswith_map[of "c # hay" needle f] by auto
qed

lemma lower_summarize: "lower ''summarize'' = ''summarize''"
  by (simp add: lower_def is_upper_def)

lemma str_in_lower: "str_in ''summarize'' prompt \<Longrightarrow> str_in ''summarize'' (lower prompt)"
  using str_in_map[of "''summarize''" prompt lower_char] lower_summarize
  by (simp add: lower_def)

text \<open>
  Claim C9. With no credential configured (\<^verbatim>\<open>fireworks_api_key\<close> missing or empty)
  \<^verbatim>\<open>create_client\<close> returns the mock client. \<^verbatim>\<open>LocalMockClient.generate\<close> returns
  for every prompt a result with \<^verbatim>\<open>success = True\<close>, and for a prompt that contains
  \<^verbatim>\<open>summarize\<close> the text of the result is that of the summarize branch: it begins
  with \<^verbatim>\<open>Summary of the tweet: \<close> and goes on with the first 100 characters of the
  tweet and the two fixed paragraphs.
\<close>

theorem mock_client_selected_and_succeeds:
  "(fireworks_api_key s = None \<or> fireworks_api_key s = Some [] \<longrightarrow>
      create_client s = Mock LocalMockClient_init) \<and>
   success (mock_generate client prompt temperature max_tokens t0 t1) \<and>
   (str_in ''summarize'' prompt \<longrightarrow>
      startswith (response_text (mock_generate client prompt temperature max_tokens t0 t1))
        ''Summary of the tweet: '' \<and>
      response_text (mock_generate client prompt temperature max_tokens t0 t1) =
        ''Summary of the tweet: '' @ take 100 (tweet_content prompt) @
  ''...\<newline>\<newline>This tweet discusses important topics that are relevant to the audience.\<newline>\<newline>The key points are clearly presented and easy to understand.'')"
proof (intro conjI impI)
  assume "fireworks_api_key s = None \<or> fireworks_api_key s = Some []"
  then show "create_client s = Mock LocalMockClient_init"
    by (auto simp add: create_client_def)
next
  show "success (mock_generate client prompt temperature max_tokens t0 t1)"
    by (simp add: mock_generate_def Let_def)
next
  assume "str_in ''summarize'' prompt"
  then have l: "str_in ''summarize'' (lower prompt)" by (rule str_in_lower)
  then show "response_text (mock_generate client prompt temperature max_tokens t0 t1) =
        ''Summary of the tweet: '' @ take 100 (tweet_content prompt) @
  ''...\<newline>\<newline>This tweet discusses important topics that are relevant to the audience.\<newline>\<newline>The key points are clearly presented and easy to understand.''"
    by (simp add: mock_generate_def Let_def)
  from l show "startswith
      (response_text (mock_generate client prompt temperature max_tokens t0 t1))
      ''Summary of the tweet: ''"
    by (simp add: mock_generate_def Let_def)
qed

lemma tweet_content_hello:
  "tweet_content ''Please summarize.\<newline>Tweet: Hello World\<newline>'' = ''Hello World''"
  by (simp add: tweet_content_def str_find_def slice_def strip_def is_space_def Let_def)

text \<open>The theorem at the default settings and a prompt with a tweet in it.\<close>

theorem mock_client_selected_and_succeeds_witness:
  "fireworks_api_key default_settings = None \<and>
   create_client default_settings = Mock LocalMockClient_init \<and>
   str_in ''summarize'' ''Please summarize.\<newline>Tweet: Hello World\<newline>'' \<and>
   success (mock_generate LocalMockClient_init
              ''Please summarize.\<newline>Tweet: Hello World\<newline>'' (7/10) 500 0 (1/4)) \<and>
   response_text (mock_generate LocalMockClient_init
                    ''Please summarize.\<newline>Tweet: Hello World\<newline>'' (7/10) 500 0 (1/4)) =
     ''Summary of the tweet: Hello World...\<newline>\<newline>This tweet discusses important topics that are relevant to the audience.\<newline>\<newline>The key points are clearly presented and easy to understand.''"
proof -
  have k: "fireworks_api_key default_settings = None" by (simp add: default_settings_def)
  have i: "str_in ''summarize'' ''Please summarize.\<newline>Tweet: Hello World\<newline>''" by simp
  show ?thesis
    using mock_client_selected_and_succeeds
            [of default_settings LocalMockClient_init
                "''Please summarize.\<newline>Tweet: Hello World\<newline>''" "7/10" 500 0 "1/4"]
          k i tweet_content_hello
    by simp
qed

end
